theory Spec2Isabelle
  imports Main "HOL-Library.Word"
begin

section \<open>JavaScript strings\<close>

text \<open>
  A JavaScript string is a sequence of 16-bit code units. The file name handed to the
  writer is an arbitrary string of the host, so the code units are kept at their full
  width; the strings read by the EXIF codec only use the code units 0..255.
  \<open>js\<close> writes a literal of the source.
\<close>

type_synonym jschar = "16 word"
type_synonym jsstring = "jschar list"

definition js :: "string \<Rightarrow> jsstring" where
  "js s = map of_char s"

text \<open>\<open>s.startsWith(p)\<close>\<close>

fun startsWith :: "jsstring \<Rightarrow> jsstring \<Rightarrow> bool" where
  "startsWith s [] = True"
| "startsWith [] (p # ps) = False"
| "startsWith (c # cs) (p # ps) = (c = p \<and> startsWith cs ps)"

text \<open>
  The character classes of ECMAScript that \<open>trim()\<close>, \<open>\s\<close>, \<open>.\<close>, \<open>^\<close> and \<open>$\<close>
  refer to: LineTerminator is LF, CR, U+2028 and U+2029; WhiteSpace is TAB, VT, FF,
  U+FEFF and the space separators of Unicode. \<open>trim()\<close> and \<open>\s\<close> take both classes.
\<close>

definition is_LineTerminator :: "jschar \<Rightarrow> bool" where
  "is_LineTerminator c = (c = 0x000A \<or> c = 0x000D \<or> c = 0x2028 \<or> c = 0x2029)"

definition is_WhiteSpace :: "jschar \<Rightarrow> bool" where
  "is_WhiteSpace c =
     (c = 0x0009 \<or> c = 0x000B \<or> c = 0x000C \<or> c = 0x0020 \<or> c = 0x00A0 \<or> c = 0x1680
      \<or> (0x2000 \<le> c \<and> c \<le> 0x200A) \<or> c = 0x202F \<or> c = 0x205F \<or> c = 0x3000
      \<or> c = 0xFEFF)"

definition is_space :: "jschar \<Rightarrow> bool" where
  "is_space c = (is_WhiteSpace c \<or> is_LineTerminator c)"

text \<open>\<open>s.trim()\<close>\<close>

definition trim :: "jsstring \<Rightarrow> jsstring" where
  "trim s = rev (dropWhile is_space (rev (dropWhile is_space s)))"

text \<open>
  \<open>s.split(/\r?\n/)\<close>: the scan of \<open>String.prototype.split\<close>. \<open>cur\<close> is the piece
  since the last separator; at each index the separator is tried (CR LF before LF), a
  match closes the piece and the scan goes on behind it. The empty string gives one
  empty piece.
\<close>

fun split_lines :: "jsstring \<Rightarrow> jsstring \<Rightarrow> jsstring list" where
  "split_lines cur [] = [cur]"
| "split_lines cur [c] = (if c = 0x000A then [cur, []] else [cur @ [c]])"
| "split_lines cur (c # d # cs) =
     (if c = 0x000D \<and> d = 0x000A then cur # split_lines [] cs
      else if c = 0x000A then cur # split_lines [] (d # cs)
      else split_lines (cur @ [c]) (d # cs))"

text \<open>\<open>s.split(' ')\<close>, the same scan with the one-character separator U+0020.\<close>

fun split_space :: "jsstring \<Rightarrow> jsstring \<Rightarrow> jsstring list" where
  "split_space cur [] = [cur]"
| "split_space cur (c # cs) =
     (if c = 0x0020 then cur # split_space [] cs else split_space (cur @ [c]) cs)"

text \<open>\<open>s.replace(/:/g, '-')\<close>\<close>

definition replace_colons :: "jsstring \<Rightarrow> jsstring" where
  "replace_colons s = map (\<lambda>c. if c = 0x003A then 0x002D else c) s"

section \<open>The metadata container\<close>

text \<open>
  A value of a tag as the codec hands it out: a string, a number, or an array (rationals
  and byte sequences). A section (IFD) maps tag ids to values, and the container
  (\<open>piexif.ExifDict\<close>) maps section names to sections. Sections are values here: the
  codec builds one object for each section, so no two section names share an object.
\<close>

datatype exif_value = JString jsstring | JNumber int | JArray "exif_value list"

type_synonym ifd = "nat \<rightharpoonup> exif_value"
type_synonym ExifDict = "string \<rightharpoonup> ifd"

text \<open>
  The tag ids \<open>piexif.ExifIFD.DateTimeOriginal\<close> and \<open>piexif.ExifIFD.UserComment\<close>
  of the codec (the source names the second one in a comment).
\<close>

definition DateTimeOriginal :: nat where
  "DateTimeOriginal = 36867"

definition UserComment :: nat where
  "UserComment = 37510"

text \<open>\<open>metadata?.Exif?.[tag]\<close>: \<open>None\<close> is \<open>undefined\<close>.\<close>

definition Exif_tag :: "ExifDict \<Rightarrow> nat \<Rightarrow> exif_value option" where
  "Exif_tag metadata tag = (case metadata ''Exif'' of None \<Rightarrow> None | Some exif \<Rightarrow> exif tag)"

text \<open>
  What \<open>if (v)\<close> and \<open>!v\<close> test: \<open>undefined\<close>, the empty string and 0 are falsy, every
  array is truthy.
\<close>

fun truthy :: "exif_value option \<Rightarrow> bool" where
  "truthy None = False"
| "truthy (Some (JString s)) = (s \<noteq> [])"
| "truthy (Some (JNumber n)) = (n \<noteq> 0)"
| "truthy (Some (JArray xs)) = True"

text \<open>\<open>typeof v === "string"\<close>\<close>

fun is_string :: "exif_value \<Rightarrow> bool" where
  "is_string (JString s) = True"
| "is_string (JNumber n) = False"
| "is_string (JArray xs) = False"

section \<open>The comment field\<close>

definition ASCII_prefix :: jsstring where
  "ASCII_prefix = js ''ASCII'' @ [0, 0, 0]"

text \<open>
  Lines 33-38 and 68-73: the text of the comment. A string loses the eight code units
  of the prefix when it starts with it; anything that is not a string has the empty
  text.
\<close>

fun commentText_of :: "exif_value option \<Rightarrow> jsstring" where
  "commentText_of (Some (JString s)) = (if startsWith s ASCII_prefix then drop 8 s else s)"
| "commentText_of (Some (JNumber n)) = []"
| "commentText_of (Some (JArray xs)) = []"
| "commentText_of None = []"

text \<open>The stored value is a string that starts with the prefix.\<close>

fun has_prefix :: "exif_value option \<Rightarrow> bool" where
  "has_prefix (Some (JString s)) = startsWith s ASCII_prefix"
| "has_prefix (Some (JNumber n)) = False"
| "has_prefix (Some (JArray xs)) = False"
| "has_prefix None = False"

text \<open>Lines 76-78: does a line, trimmed, start with the label?\<close>

definition hasOriginalFilename :: "jsstring \<Rightarrow> bool" where
  "hasOriginalFilename commentText =
     list_ex (\<lambda>line. startsWith (trim line) (js ''OriginalFilename''))
       (split_lines [] commentText)"

section \<open>The writer\<close>

text \<open>
  \<open>encodeOriginalFilename\<close> changes the container in place and returns nothing; the
  model returns the container as it is after the call. The parameter has the type of
  the container, which leaves out \<open>null\<close> and \<open>undefined\<close> (for them the guard of line
  58 would return as it does for a container without the section).
\<close>

definition encodeOriginalFilename :: "jsstring \<Rightarrow> ExifDict \<Rightarrow> ExifDict" where
  "encodeOriginalFilename fileName metadata =
     (let hasOriginalMetadata = Exif_tag metadata DateTimeOriginal in
      if \<not> truthy hasOriginalMetadata \<or> fileName = [] then metadata
      else
        let exif = (case metadata ''Exif'' of None \<Rightarrow> Map.empty | Some e \<Rightarrow> e);
            existingComment = exif UserComment;
            commentText = commentText_of existingComment
        in if \<not> hasOriginalFilename commentText then
             let commentText' =
                   (if commentText \<noteq> []
                    then commentText @ js (CHR 0x0A # ''OriginalFilename: '') @ fileName
                    else js ''OriginalFilename: '' @ fileName);
                 exif' = exif(UserComment \<mapsto> JString (ASCII_prefix @ commentText'))
             in metadata(''Exif'' \<mapsto> exif')
           else metadata)"

section \<open>The reader\<close>

text \<open>
  Line 39, \<open>commentText.match(/^OriginalFilename:\s*(.+)$/m)\<close>, by the backtracking
  order of the pattern. \<open>dot_plus_eol\<close> is \<open>(.+)$\<close>: the greedy \<open>.+\<close> takes every code
  unit up to the next line terminator, where \<open>$\<close> holds, and needs one at least.
  \<open>ws_star\<close> is \<open>\s*\<close> in front of it: it takes one more white space first and gives
  it back when the rest then fails. \<open>match_at\<close> is the pattern behind \<open>^\<close>, and
  \<open>exec_from\<close> tries the start indices from left to right, \<open>bol\<close> telling whether \<open>^\<close>
  holds at the index. The result is the capture group, \<open>None\<close> when nothing matches.
\<close>

definition dot_plus_eol :: "jsstring \<Rightarrow> jsstring option" where
  "dot_plus_eol s =
     (let run = takeWhile (\<lambda>c. \<not> is_LineTerminator c) s
      in if run = [] then None else Some run)"

fun ws_star :: "jsstring \<Rightarrow> jsstring option" where
  "ws_star [] = dot_plus_eol []"
| "ws_star (c # cs) =
     (if is_space c
      then (case ws_star cs of Some g \<Rightarrow> Some g | None \<Rightarrow> dot_plus_eol (c # cs))
      else dot_plus_eol (c # cs))"

definition match_at :: "jsstring \<Rightarrow> jsstring option" where
  "match_at s =
     (if startsWith s (js ''OriginalFilename:'') then ws_star (drop 17 s) else None)"

fun exec_from :: "bool \<Rightarrow> jsstring \<Rightarrow> jsstring option" where
  "exec_from bol [] = (if bol then match_at [] else None)"
| "exec_from bol (c # cs) =
     (case (if bol then match_at (c # cs) else None) of
        Some g \<Rightarrow> Some g
      | None \<Rightarrow> exec_from (is_LineTerminator c) cs)"

definition match_OriginalFilename :: "jsstring \<Rightarrow> jsstring option" where
  "match_OriginalFilename commentText = exec_from True commentText"

text \<open>
  Lines 31-42: the original file name that the reader takes from the value of the
  comment tag.
\<close>

definition originalFileName_of :: "exif_value option \<Rightarrow> jsstring" where
  "originalFileName_of userComment =
     (case match_OriginalFilename (commentText_of userComment) of
        Some g \<Rightarrow> trim g
      | None \<Rightarrow> [])"

text \<open>
  Line 28, \<open>exifDate.split(' ')[0]?.replace(/:/g, '-')\<close>: a string is split at the
  spaces and the colons of its first piece are replaced (the split of a string always
  has a first piece); a number and an array have no \<open>split\<close>, the call raises a
  TypeError.
\<close>

datatype js_error = HostError string | TypeError

fun date_token :: "exif_value \<Rightarrow> js_error + jsstring" where
  "date_token (JString s) =
     Inr (case split_space [] s of [] \<Rightarrow> [] | tok # rest \<Rightarrow> replace_colons tok)"
| "date_token (JNumber n) = Inl TypeError"
| "date_token (JArray xs) = Inl TypeError"

text \<open>
  Lines 27-28: the new value of \<open>dateTaken\<close>, which stays empty when the tag is
  \<open>undefined\<close> or falsy.
\<close>

fun dateTaken_of :: "exif_value option \<Rightarrow> js_error + jsstring" where
  "dateTaken_of None = Inr []"
| "dateTaken_of (Some exifDate) =
     (if truthy (Some exifDate) then date_token exifDate else Inr [])"

text \<open>
  The capabilities of the host that the reader calls: \<open>app.vault.readBinary\<close>,
  \<open>window.btoa\<close> and \<open>piexif.load\<close>. Each returns its value or raises.
\<close>

record 'f host =
  readBinary :: "'f \<Rightarrow> js_error + 8 word list"
  btoa :: "jsstring \<Rightarrow> js_error + jsstring"
  piexif_load :: "jsstring \<Rightarrow> js_error + ExifDict"

record result =
  dateTaken :: jsstring
  originalFileName :: jsstring

text \<open>
  Lines 20-26: the bytes of the file, cut to the first 64 KiB, turned into a binary
  string, base64 and a data URL, and parsed. Every call of the host may raise. The
  call of \<open>String.fromCharCode\<close> with at most 65536 arguments is taken to return.
\<close>

definition load_container :: "'f host \<Rightarrow> 'f \<Rightarrow> js_error + ExifDict" where
  "load_container h file =
     (case readBinary h file of
        Inl e \<Rightarrow> Inl e
      | Inr arrayBuffer \<Rightarrow>
          (let headerBytes = 64 * 1024;
               slicedBuffer = (if length arrayBuffer > headerBytes
                               then take headerBytes arrayBuffer else arrayBuffer);
               binary = map ucast slicedBuffer
           in case btoa h binary of
                Inl e \<Rightarrow> Inl e
              | Inr base64 \<Rightarrow>
                  (let dataUrl = js ''data:image/jpeg;base64,'' @ base64
                   in piexif_load h dataUrl)))"

text \<open>
  The \<open>try\<close> block of lines 19-42: the values of the two variables when the block is
  left, and the exception when it is left by one. Both variables start empty, and
  \<open>dateTaken\<close> is assigned only after line 28 has not raised.
\<close>

definition try_block :: "'f host \<Rightarrow> 'f \<Rightarrow> result \<times> js_error option" where
  "try_block h file =
     (let initial = \<lparr>dateTaken = [], originalFileName = []\<rparr> in
      case load_container h file of
        Inl e \<Rightarrow> (initial, Some e)
      | Inr exifObj \<Rightarrow>
          (case dateTaken_of (Exif_tag exifObj DateTimeOriginal) of
             Inl e \<Rightarrow> (initial, Some e)
           | Inr date \<Rightarrow>
               (let userComment = Exif_tag exifObj UserComment
                in (initial\<lparr>dateTaken := date,
                      originalFileName := originalFileName_of userComment\<rparr>,
                    None))))"

text \<open>
  \<open>extractExifDateAndFilename\<close>: the \<open>catch\<close> clause logs the exception and the
  function returns the two variables as they are.
\<close>

definition extractExifDateAndFilename :: "'f host \<Rightarrow> 'f \<Rightarrow> result" where
  "extractExifDateAndFilename h file = fst (try_block h file)"

section \<open>Strings and lines\<close>

lemma startsWith_append: "startsWith (p @ r) p"
  by (induction p) simp_all

lemma startsWith_iff_take: "startsWith s p \<longleftrightarrow> take (length p) s = p"
  by (induction s p rule: startsWith.induct) auto

lemma length_ASCII_prefix: "length ASCII_prefix = 8"
  by (simp add: ASCII_prefix_def js_def)

lemma commentText_of_prefixed: "commentText_of (Some (JString (ASCII_prefix @ t))) = t"
  by (simp add: startsWith_append length_ASCII_prefix)

lemma has_prefix_prefixed: "has_prefix (Some (JString (ASCII_prefix @ t)))"
  by (simp add: startsWith_append)

lemma tags_differ: "DateTimeOriginal \<noteq> UserComment"
  by (simp add: DateTimeOriginal_def UserComment_def)

text \<open>A code unit that is neither CR nor LF joins the current piece.\<close>

lemma split_lines_step:
  "c \<noteq> 0x000D \<Longrightarrow> c \<noteq> 0x000A \<Longrightarrow> split_lines cur (c # rest) = split_lines (cur @ [c]) rest"
  by (cases rest) simp_all

lemma split_lines_plain:
  "\<forall>c \<in> set p. c \<noteq> 0x000D \<and> c \<noteq> 0x000A \<Longrightarrow>
   split_lines cur (p @ s) = split_lines (cur @ p) s"
  by (induction p arbitrary: cur) (simp_all add: split_lines_step)

text \<open>The first piece starts with what the scan already holds.\<close>

lemma split_lines_first: "\<exists>l ls. split_lines cur s = (cur @ l) # ls"
proof (induction cur s rule: split_lines.induct)
  case (1 cur)
  show ?case by simp
next
  case (2 cur c)
  show ?case by simp
next
  case (3 cur c d cs)
  show ?case
  proof (cases "c = 0x000D \<and> d = 0x000A \<or> c = 0x000A")
    case True
    then show ?thesis by auto
  next
    case False
    with 3 obtain l ls where "split_lines (cur @ [c]) (d # cs) = ((cur @ [c]) @ l) # ls"
      by blast
    with False show ?thesis by auto
  qed
qed

text \<open>What stands behind a line feed is split on its own.\<close>

lemma split_lines_behind_LF:
  "\<exists>ls. split_lines cur (a @ 0x000A # b) = ls @ split_lines [] b"
proof (induction cur a rule: split_lines.induct)
  case (1 cur)
  show ?case by (cases b) auto
next
  case (2 cur c)
  show ?case
  proof (cases "c = 0x000D \<or> c = 0x000A")
    case True
    then show ?thesis by (cases b) auto
  next
    case False
    then show ?thesis using split_lines.simps(3) [of cur c "0x000A" b]
      by (cases b) auto
  qed
next
  case (3 cur c d cs)
  then show ?case
    by (cases "c = 0x000D \<and> d = 0x000A"; cases "c = 0x000A")
       (auto intro: exI [of _ "cur # ls" for ls])
qed

text \<open>Trimming keeps a front part that neither starts nor ends with white space.\<close>

lemma trim_keeps_front:
  assumes "p \<noteq> []" and "\<not> is_space (hd p)" and "\<not> is_space (last p)"
  shows "startsWith (trim (p @ r)) p"
proof -
  from assms have front: "dropWhile is_space (p @ r) = p @ r"
    by (cases p) simp_all
  from assms have behind: "dropWhile is_space (rev p) = rev p"
    by (cases "rev p") (simp_all add: hd_rev)
  have "\<exists>x. dropWhile is_space (rev r @ rev p) = x @ rev p"
    by (cases "\<forall>c \<in> set (rev r). is_space c") (auto simp: dropWhile_append behind)
  then obtain x where "dropWhile is_space (rev (p @ r)) = x @ rev p"
    by auto
  then have "trim (p @ r) = p @ rev x"
    by (simp add: trim_def front)
  then show ?thesis
    by (simp add: startsWith_append)
qed

lemma label_not_space:
  "js ''OriginalFilename'' \<noteq> []"
  "\<not> is_space (hd (js ''OriginalFilename''))"
  "\<not> is_space (last (js ''OriginalFilename''))"
  by (simp_all add: js_def is_space_def is_WhiteSpace_def is_LineTerminator_def)

lemma label_line: "startsWith (trim (js ''OriginalFilename'' @ r)) (js ''OriginalFilename'')"
  by (rule trim_keeps_front) (rule label_not_space)+

section \<open>The annotation that the writer adds is found by its own test\<close>

lemma hasOriginalFilename_line:
  "hasOriginalFilename (js ''OriginalFilename: '' @ fileName)"
proof -
  have plain: "\<forall>c \<in> set (js ''OriginalFilename: ''). c \<noteq> 0x000D \<and> c \<noteq> 0x000A"
    by (simp add: js_def)
  obtain l ls
    where "split_lines (js ''OriginalFilename: '') fileName = (js ''OriginalFilename: '' @ l) # ls"
    using split_lines_first by blast
  then have "split_lines [] (js ''OriginalFilename: '' @ fileName)
             = (js ''OriginalFilename'' @ js '': '' @ l) # ls"
    using split_lines_plain [OF plain, of "[]" fileName] by (simp add: js_def)
  then show ?thesis
    by (simp add: hasOriginalFilename_def label_line)
qed

lemma hasOriginalFilename_behind_LF:
  "hasOriginalFilename b \<Longrightarrow> hasOriginalFilename (a @ 0x000A # b)"
  using split_lines_behind_LF [of "[]" a b] by (auto simp: hasOriginalFilename_def list_ex_iff)

lemma hasOriginalFilename_appended:
  "hasOriginalFilename (t @ js (CHR 0x0A # ''OriginalFilename: '') @ fileName)"
proof -
  have "js (CHR 0x0A # ''OriginalFilename: '') = 0x000A # js ''OriginalFilename: ''"
    by (simp add: js_def)
  then show ?thesis
    using hasOriginalFilename_behind_LF [OF hasOriginalFilename_line, of t fileName] by simp
qed

text \<open>The two ways the call ends: it returns the container as it is, or it writes.\<close>

lemma encode_skips:
  "\<not> truthy (Exif_tag metadata DateTimeOriginal) \<or> fileName = []
     \<or> hasOriginalFilename (commentText_of (Exif_tag metadata UserComment))
   \<Longrightarrow> encodeOriginalFilename fileName metadata = metadata"
  unfolding encodeOriginalFilename_def Exif_tag_def Let_def
  by (cases "metadata ''Exif''") auto

lemma encode_writes:
  assumes "truthy (Exif_tag metadata DateTimeOriginal)" and "fileName \<noteq> []"
    and "\<not> hasOriginalFilename (commentText_of (Exif_tag metadata UserComment))"
  shows "\<exists>exif. metadata ''Exif'' = Some exif \<and>
           encodeOriginalFilename fileName metadata =
             metadata(''Exif'' \<mapsto> exif(UserComment \<mapsto> JString (ASCII_prefix @
               (if commentText_of (exif UserComment) \<noteq> []
                then commentText_of (exif UserComment)
                       @ js (CHR 0x0A # ''OriginalFilename: '') @ fileName
                else js ''OriginalFilename: '' @ fileName))))"
proof -
  from assms(1) obtain exif where exif: "metadata ''Exif'' = Some exif"
    by (cases "metadata ''Exif''") (simp_all add: Exif_tag_def)
  with assms show ?thesis
    by (simp add: encodeOriginalFilename_def Exif_tag_def Let_def)
qed

lemma hasOriginalFilename_iff:
  "hasOriginalFilename t \<longleftrightarrow>
     (\<exists>line \<in> set (split_lines [] t). startsWith (trim line) (js ''OriginalFilename''))"
  by (simp add: hasOriginalFilename_def list_ex_iff)

section \<open>Where the pattern of the reader finds nothing\<close>

text \<open>
  The pattern can only match where the text \<open>OriginalFilename:\<close> stands at the start
  of the string or right behind a line terminator.
\<close>

lemma match_at_needs_label:
  "\<not> startsWith s (js ''OriginalFilename:'') \<Longrightarrow> match_at s = None"
  by (simp add: match_at_def)

lemma exec_from_no_label:
  "(\<forall>i \<le> length s.
      (if i = 0 then bol else is_LineTerminator (s ! (i - 1)))
        \<longrightarrow> \<not> startsWith (drop i s) (js ''OriginalFilename:''))
   \<Longrightarrow> exec_from bol s = None"
proof (induction s arbitrary: bol)
  case Nil
  then show ?case by (simp add: match_at_needs_label)
next
  case (Cons c cs)
  from Cons.prems [rule_format, of 0] have here: "bol \<longrightarrow> match_at (c # cs) = None"
    by (simp add: match_at_needs_label)
  have "\<forall>i \<le> length cs.
      (if i = 0 then is_LineTerminator c else is_LineTerminator (cs ! (i - 1)))
        \<longrightarrow> \<not> startsWith (drop i cs) (js ''OriginalFilename:'')"
  proof (intro allI impI)
    fix i
    assume "i \<le> length cs"
      and "if i = 0 then is_LineTerminator c else is_LineTerminator (cs ! (i - 1))"
    with Cons.prems [rule_format, of "Suc i"]
    show "\<not> startsWith (drop i cs) (js ''OriginalFilename:'')"
      by (cases i) simp_all
  qed
  then have "exec_from (is_LineTerminator c) cs = None"
    by (rule Cons.IH)
  with here show ?case by simp
qed

lemma match_OriginalFilename_no_label:
  "(\<forall>i \<le> length s.
      (i = 0 \<or> is_LineTerminator (s ! (i - 1)))
        \<longrightarrow> \<not> startsWith (drop i s) (js ''OriginalFilename:''))
   \<Longrightarrow> match_OriginalFilename s = None"
  unfolding match_OriginalFilename_def
  by (rule exec_from_no_label) (auto split: if_splits)

lemma no_label_at_line_start_example:
  "\<forall>i \<le> length (js (''Camera: Canon'' @ CHR 0x0A # ''  OriginalFilenames backup'')).
      (i = 0 \<or> is_LineTerminator
                  (js (''Camera: Canon'' @ CHR 0x0A # ''  OriginalFilenames backup'') ! (i - 1)))
        \<longrightarrow> \<not> startsWith (drop i (js (''Camera: Canon'' @ CHR 0x0A # ''  OriginalFilenames backup'')))
                (js ''OriginalFilename:'')"
  by (simp add: js_def is_LineTerminator_def le_Suc_eq all_conj_distrib)

lemma commentText_of_non_string: "\<not> is_string v \<Longrightarrow> commentText_of (Some v) = []"
  by (cases v) simp_all

lemma originalFileName_of_empty_text:
  "commentText_of userComment = [] \<Longrightarrow> originalFileName_of userComment = []"
  by (simp add: originalFileName_of_def match_OriginalFilename_def match_at_def js_def)

lemma originalFileName_of_IMG_0001:
  "originalFileName_of (Some (JString (ASCII_prefix @ js ''OriginalFilename: IMG_0001.jpg'')))
     = js ''IMG_0001.jpg''"
  unfolding originalFileName_of_def commentText_of_prefixed
  by (simp add: js_def match_OriginalFilename_def match_at_def dot_plus_eol_def trim_def
        is_space_def is_WhiteSpace_def is_LineTerminator_def)

section \<open>The steps of the reader\<close>

lemma try_block_failed:
  "snd (try_block h file) = Some e \<Longrightarrow>
   fst (try_block h file) = \<lparr>dateTaken = [], originalFileName = []\<rparr>"
  by (auto simp: try_block_def Let_def split: sum.splits)

lemma try_block_load_failed:
  "load_container h file = Inl e \<Longrightarrow>
   try_block h file = (\<lparr>dateTaken = [], originalFileName = []\<rparr>, Some e)"
  by (simp add: try_block_def)

lemma load_container_read_failed:
  "readBinary h file = Inl e \<Longrightarrow> load_container h file = Inl e"
  by (simp add: load_container_def)

lemma try_block_loaded:
  "load_container h file = Inr exifObj \<Longrightarrow>
   try_block h file =
     (case dateTaken_of (Exif_tag exifObj DateTimeOriginal) of
        Inl e \<Rightarrow> (\<lparr>dateTaken = [], originalFileName = []\<rparr>, Some e)
      | Inr date \<Rightarrow>
          (\<lparr>dateTaken = date,
            originalFileName = originalFileName_of (Exif_tag exifObj UserComment)\<rparr>, None))"
  by (simp add: try_block_def split: sum.splits)

lemma load_container_steps:
  "load_container h file =
     (case readBinary h file of
        Inl e \<Rightarrow> Inl e
      | Inr bytes \<Rightarrow>
          (case btoa h (map ucast (take 65536 bytes)) of
             Inl e \<Rightarrow> Inl e
           | Inr base64 \<Rightarrow> piexif_load h (js ''data:image/jpeg;base64,'' @ base64)))"
  by (simp add: load_container_def Let_def split: sum.splits)

lemma try_block_raises_iff:
  "snd (try_block h file) = Some e \<longleftrightarrow>
     load_container h file = Inl e
     \<or> (\<exists>exifObj. load_container h file = Inr exifObj
          \<and> dateTaken_of (Exif_tag exifObj DateTimeOriginal) = Inl e)"
  by (auto simp: try_block_def Let_def split: sum.splits)

lemma split_space_first:
  "\<exists>rest. split_space cur s = (cur @ takeWhile (\<lambda>c. c \<noteq> 0x0020) s) # rest"
proof (induction s arbitrary: cur)
  case Nil
  show ?case by simp
next
  case (Cons c cs)
  from Cons [of "cur @ [c]"] show ?case by auto
qed

lemma date_token_string:
  "date_token (JString s) = Inr (replace_colons (takeWhile (\<lambda>c. c \<noteq> 0x0020) s))"
  using split_space_first [of "[]" s] by auto

lemma dateTaken_of_string:
  "dateTaken_of (Some (JString s)) = Inr (replace_colons (takeWhile (\<lambda>c. c \<noteq> 0x0020) s))"
  by (cases s) (simp_all add: date_token_string replace_colons_def del: date_token.simps)

section \<open>The claims\<close>

text \<open>
  C1, as amended. When the date-taken tag of the Exif section has a truthy value (a
  string that is not empty, a number other than 0, or an array) and the comment tag is
  absent, the call \<open>encodeOriginalFilename("IMG_0001.jpg", container)\<close> stores the
  prefix followed by \<open>OriginalFilename: IMG_0001.jpg\<close>, and lines 31-42 of the reader
  (strip the prefix, match the pattern, trim the group) give back exactly
  \<open>IMG_0001.jpg\<close>.
\<close>

theorem encode_roundtrip:
  assumes "truthy (Exif_tag metadata DateTimeOriginal)"
    and "Exif_tag metadata UserComment = None"
  shows "Exif_tag (encodeOriginalFilename (js ''IMG_0001.jpg'') metadata) UserComment
           = Some (JString (ASCII_prefix @ js ''OriginalFilename: IMG_0001.jpg''))
         \<and> originalFileName_of
             (Exif_tag (encodeOriginalFilename (js ''IMG_0001.jpg'') metadata) UserComment)
           = js ''IMG_0001.jpg''"
proof -
  have name: "js ''IMG_0001.jpg'' \<noteq> []"
    by (simp add: js_def)
  have fresh: "\<not> hasOriginalFilename (commentText_of (Exif_tag metadata UserComment))"
    by (simp add: assms(2) hasOriginalFilename_def trim_def js_def)
  from encode_writes [OF assms(1) name fresh] assms(2)
  have "Exif_tag (encodeOriginalFilename (js ''IMG_0001.jpg'') metadata) UserComment
          = Some (JString (ASCII_prefix @ js ''OriginalFilename: '' @ js ''IMG_0001.jpg''))"
    by (auto simp: Exif_tag_def)
  then have stored: "Exif_tag (encodeOriginalFilename (js ''IMG_0001.jpg'') metadata) UserComment
          = Some (JString (ASCII_prefix @ js ''OriginalFilename: IMG_0001.jpg''))"
    by (simp add: js_def)
  show ?thesis
    unfolding stored by (simp add: originalFileName_of_IMG_0001 del: commentText_of.simps)
qed

theorem encode_roundtrip_witness:
  "truthy (Exif_tag [''Exif'' \<mapsto> [DateTimeOriginal \<mapsto> JString (js ''2021:07:04 10:00:00'')]]
             DateTimeOriginal)
   \<and> Exif_tag [''Exif'' \<mapsto> [DateTimeOriginal \<mapsto> JString (js ''2021:07:04 10:00:00'')]]
         UserComment = None
   \<and> originalFileName_of
         (Exif_tag
            (encodeOriginalFilename (js ''IMG_0001.jpg'')
               [''Exif'' \<mapsto> [DateTimeOriginal \<mapsto> JString (js ''2021:07:04 10:00:00'')]])
            UserComment)
       = js ''IMG_0001.jpg''"
proof -
  let ?m = "[''Exif'' \<mapsto> [DateTimeOriginal \<mapsto> JString (js ''2021:07:04 10:00:00'')]]"
  have date: "truthy (Exif_tag ?m DateTimeOriginal)"
    by (simp add: Exif_tag_def js_def)
  have absent: "Exif_tag ?m UserComment = None"
    by (simp add: Exif_tag_def tags_differ [symmetric])
  from encode_roundtrip [OF date absent] date absent show ?thesis
    by blast
qed

text \<open>
  C1 as it is written asks only for the date-taken tag to be present. The guard of
  line 58 tests the value of the tag: with the empty string under the tag the writer
  returns at once, the comment tag stays absent and the reader finds no name.
\<close>

theorem roundtrip_counterexample:
  "Exif_tag [''Exif'' \<mapsto> [DateTimeOriginal \<mapsto> JString (js '''')]] DateTimeOriginal
     = Some (JString (js ''''))
   \<and> Exif_tag [''Exif'' \<mapsto> [DateTimeOriginal \<mapsto> JString (js '''')]] UserComment = None
   \<and> originalFileName_of
         (Exif_tag
            (encodeOriginalFilename (js ''IMG_0001.jpg'')
               [''Exif'' \<mapsto> [DateTimeOriginal \<mapsto> JString (js '''')]])
            UserComment)
       \<noteq> js ''IMG_0001.jpg''"
  by (simp add: encodeOriginalFilename_def Exif_tag_def tags_differ tags_differ [symmetric] js_def
        originalFileName_of_def match_OriginalFilename_def match_at_def)

text \<open>
  C2. Calling the writer twice with the same file name gives the container, and with it
  the value of the comment tag, that one call gives: the second call finds the
  annotation line and adds nothing. This holds for every file name, the empty one
  too.
\<close>

theorem encode_idempotent:
  "encodeOriginalFilename fileName (encodeOriginalFilename fileName metadata)
     = encodeOriginalFilename fileName metadata
   \<and> Exif_tag (encodeOriginalFilename fileName (encodeOriginalFilename fileName metadata))
         UserComment
       = Exif_tag (encodeOriginalFilename fileName metadata) UserComment"
proof -
  have "encodeOriginalFilename fileName (encodeOriginalFilename fileName metadata)
          = encodeOriginalFilename fileName metadata"
  proof (cases "\<not> truthy (Exif_tag metadata DateTimeOriginal) \<or> fileName = []
                 \<or> hasOriginalFilename (commentText_of (Exif_tag metadata UserComment))")
    case True
    then show ?thesis by (simp add: encode_skips)
  next
    case False
    then obtain exif t where written:
        "encodeOriginalFilename fileName metadata
           = metadata(''Exif'' \<mapsto> exif(UserComment \<mapsto> JString (ASCII_prefix @ t)))"
      and annotated: "hasOriginalFilename t"
      using encode_writes [of metadata fileName]
      by (auto simp: hasOriginalFilename_line hasOriginalFilename_appended)
    have "commentText_of (Exif_tag (encodeOriginalFilename fileName metadata) UserComment) = t"
      unfolding written by (simp add: Exif_tag_def commentText_of_prefixed del: commentText_of.simps)
    with annotated show ?thesis
      by (simp add: encode_skips)
  qed
  then show ?thesis by simp
qed

theorem encode_idempotent_witness:
  "Exif_tag
     (encodeOriginalFilename (js ''IMG_0001.jpg'')
       (encodeOriginalFilename (js ''IMG_0001.jpg'')
         [''Exif'' \<mapsto> [DateTimeOriginal \<mapsto> JString (js ''2021:07:04 10:00:00'')]]))
     UserComment
   = Some (JString (js ''ASCII'' @ [0, 0, 0] @ js ''OriginalFilename: IMG_0001.jpg''))"
proof -
  have once:
    "Exif_tag
       (encodeOriginalFilename (js ''IMG_0001.jpg'')
          [''Exif'' \<mapsto> [DateTimeOriginal \<mapsto> JString (js ''2021:07:04 10:00:00'')]])
       UserComment
     = Some (JString (js ''ASCII'' @ [0, 0, 0] @ js ''OriginalFilename: IMG_0001.jpg''))"
    by (simp add: encodeOriginalFilename_def Exif_tag_def DateTimeOriginal_def UserComment_def
          js_def hasOriginalFilename_def trim_def ASCII_prefix_def)
  show ?thesis
    using encode_idempotent
      [of "js ''IMG_0001.jpg''"
          "[''Exif'' \<mapsto> [DateTimeOriginal \<mapsto> JString (js ''2021:07:04 10:00:00'')]]"]
      once
    by simp
qed

text \<open>
  C3, as amended. When the date-taken tag has a truthy value, the file name is not
  empty, the stored comment does not start with the prefix and no line of its text,
  trimmed, starts with \<open>OriginalFilename\<close>, the value of the comment tag after the call
  is a string that starts with the eight code units of the prefix.
\<close>

theorem encode_normalizes_prefix:
  assumes "truthy (Exif_tag metadata DateTimeOriginal)" and "fileName \<noteq> []"
    and "\<not> has_prefix (Exif_tag metadata UserComment)"
    and "\<not> hasOriginalFilename (commentText_of (Exif_tag metadata UserComment))"
  shows "has_prefix (Exif_tag (encodeOriginalFilename fileName metadata) UserComment)"
proof -
  from encode_writes [OF assms(1,2,4)] obtain exif t
    where "encodeOriginalFilename fileName metadata
             = metadata(''Exif'' \<mapsto> exif(UserComment \<mapsto> JString (ASCII_prefix @ t)))"
    by blast
  then show ?thesis
    by (simp add: Exif_tag_def has_prefix_prefixed del: has_prefix.simps)
qed

theorem encode_normalizes_prefix_witness:
  "truthy (Exif_tag [''Exif'' \<mapsto> [DateTimeOriginal \<mapsto> JString (js ''2021:07:04 10:00:00''),
                         UserComment \<mapsto> JString (js ''Camera: Canon'')]] DateTimeOriginal)
   \<and> js ''IMG_0001.jpg'' \<noteq> []
   \<and> \<not> has_prefix (Exif_tag [''Exif'' \<mapsto> [DateTimeOriginal \<mapsto> JString (js ''2021:07:04 10:00:00''),
                         UserComment \<mapsto> JString (js ''Camera: Canon'')]] UserComment)
   \<and> \<not> hasOriginalFilename (commentText_of (Exif_tag [''Exif'' \<mapsto> [DateTimeOriginal \<mapsto> JString (js ''2021:07:04 10:00:00''),
                         UserComment \<mapsto> JString (js ''Camera: Canon'')]] UserComment))
   \<and> has_prefix (Exif_tag (encodeOriginalFilename (js ''IMG_0001.jpg'')
          [''Exif'' \<mapsto> [DateTimeOriginal \<mapsto> JString (js ''2021:07:04 10:00:00''),
                         UserComment \<mapsto> JString (js ''Camera: Canon'')]]) UserComment)"
proof -
  let ?m = "[''Exif'' \<mapsto> [DateTimeOriginal \<mapsto> JString (js ''2021:07:04 10:00:00''),
                         UserComment \<mapsto> JString (js ''Camera: Canon'')]]"
  have date: "truthy (Exif_tag ?m DateTimeOriginal)"
    by (simp add: Exif_tag_def tags_differ js_def)
  have name: "js ''IMG_0001.jpg'' \<noteq> []"
    by (simp add: js_def)
  have raw: "\<not> has_prefix (Exif_tag ?m UserComment)"
    by (simp add: Exif_tag_def js_def ASCII_prefix_def)
  have fresh: "\<not> hasOriginalFilename (commentText_of (Exif_tag ?m UserComment))"
    by (simp add: Exif_tag_def js_def ASCII_prefix_def hasOriginalFilename_def trim_def
          is_space_def is_WhiteSpace_def is_LineTerminator_def)
  from encode_normalizes_prefix [OF date name raw fresh] date name raw fresh
  show ?thesis by simp
qed

text \<open>
  C3 as it is written fails on a comment without the prefix that already holds an
  annotation line: the test of lines 76-80 skips the only assignment, and the value
  is left without the prefix.
\<close>

theorem prefix_normalization_counterexample:
  "Exif_tag [''Exif'' \<mapsto> [DateTimeOriginal \<mapsto> JString (js ''2021:07:04 10:00:00''),
                         UserComment \<mapsto> JString (js ''OriginalFilename: old.jpg'')]]
      DateTimeOriginal = Some (JString (js ''2021:07:04 10:00:00''))
   \<and> js ''new.jpg'' \<noteq> []
   \<and> \<not> has_prefix
         (Exif_tag [''Exif'' \<mapsto> [DateTimeOriginal \<mapsto> JString (js ''2021:07:04 10:00:00''),
                                UserComment \<mapsto> JString (js ''OriginalFilename: old.jpg'')]]
            UserComment)
   \<and> \<not> has_prefix
         (Exif_tag
            (encodeOriginalFilename (js ''new.jpg'')
               [''Exif'' \<mapsto> [DateTimeOriginal \<mapsto> JString (js ''2021:07:04 10:00:00''),
                            UserComment \<mapsto> JString (js ''OriginalFilename: old.jpg'')]])
            UserComment)"
  by (simp add: encodeOriginalFilename_def Exif_tag_def DateTimeOriginal_def UserComment_def
        js_def hasOriginalFilename_def trim_def ASCII_prefix_def
        is_space_def is_WhiteSpace_def is_LineTerminator_def)

text \<open>
  The same with a falsy date value: the guard of line 58 returns and the comment keeps
  its value without the prefix.
\<close>

lemma prefix_normalization_falsy_date:
  "Exif_tag
     (encodeOriginalFilename (js ''new.jpg'')
        [''Exif'' \<mapsto> [DateTimeOriginal \<mapsto> JString (js ''''),
                     UserComment \<mapsto> JString (js ''Camera: Canon'')]])
     UserComment
   = Some (JString (js ''Camera: Canon''))"
  by (simp add: encodeOriginalFilename_def Exif_tag_def tags_differ js_def)

text \<open>
  C4. The writer does nothing when the file name is empty or when the Exif section has
  no date-taken tag (or the container has no Exif section): the container after the call
  is the container before it, and so is its comment tag.
\<close>

theorem encode_noop:
  "fileName = [] \<or> Exif_tag metadata DateTimeOriginal = None \<Longrightarrow>
   encodeOriginalFilename fileName metadata = metadata
   \<and> Exif_tag (encodeOriginalFilename fileName metadata) UserComment
       = Exif_tag metadata UserComment"
  using encode_skips [of metadata fileName] by auto

theorem encode_noop_witness:
  "Exif_tag [''Exif'' \<mapsto> [UserComment \<mapsto> JString (js ''note'')]] DateTimeOriginal = None
   \<and> encodeOriginalFilename (js ''IMG_0001.jpg'') [''Exif'' \<mapsto> [UserComment \<mapsto> JString (js ''note'')]]
       = [''Exif'' \<mapsto> [UserComment \<mapsto> JString (js ''note'')]]"
proof -
  have absent:
    "Exif_tag [''Exif'' \<mapsto> [UserComment \<mapsto> JString (js ''note'')]] DateTimeOriginal = None"
    by (simp add: Exif_tag_def tags_differ)
  then have "js ''IMG_0001.jpg'' = []
      \<or> Exif_tag [''Exif'' \<mapsto> [UserComment \<mapsto> JString (js ''note'')]] DateTimeOriginal = None"
    by simp
  from encode_noop [OF this] absent show ?thesis
    by simp
qed

text \<open>
  C5. With the comment \<open>"ASCII\0\0\0Camera: Canon\nOriginalFilename: old.jpg"\<close> the
  call with \<open>"new.jpg"\<close> leaves the container and the comment as they are, whatever
  the date-taken tag holds. In general: when a line of the comment text, trimmed, starts
  with the label, the call changes nothing, whatever file name is passed in.
\<close>

theorem encode_preserves_first:
  "(Exif_tag metadata UserComment
      = Some (JString (js ''ASCII'' @ [0, 0, 0]
                @ js (''Camera: Canon'' @ CHR 0x0A # ''OriginalFilename: old.jpg'')))
    \<longrightarrow> encodeOriginalFilename (js ''new.jpg'') metadata = metadata
        \<and> Exif_tag (encodeOriginalFilename (js ''new.jpg'') metadata) UserComment
            = Some (JString (js ''ASCII'' @ [0, 0, 0]
                @ js (''Camera: Canon'' @ CHR 0x0A # ''OriginalFilename: old.jpg''))))
   \<and> (hasOriginalFilename (commentText_of (Exif_tag metadata UserComment))
        \<longrightarrow> encodeOriginalFilename fileName metadata = metadata)"
proof -
  have "hasOriginalFilename (js ''Camera: Canon'' @ 0x000A # js ''OriginalFilename: '' @ js ''old.jpg'')"
    by (rule hasOriginalFilename_behind_LF) (rule hasOriginalFilename_line)
  then have "hasOriginalFilename
      (commentText_of (Some (JString (ASCII_prefix
         @ js (''Camera: Canon'' @ CHR 0x0A # ''OriginalFilename: old.jpg'')))))"
    unfolding commentText_of_prefixed by (simp add: js_def)
  then show ?thesis
    using encode_skips [of metadata] by (auto simp: ASCII_prefix_def)
qed

theorem encode_preserves_first_witness:
  "encodeOriginalFilename (js ''new.jpg'')
     [''Exif'' \<mapsto> [DateTimeOriginal \<mapsto> JString (js ''2021:07:04 10:00:00''),
                  UserComment \<mapsto> JString (js ''ASCII'' @ [0, 0, 0]
                    @ js (''Camera: Canon'' @ CHR 0x0A # ''OriginalFilename: old.jpg''))]]
   = [''Exif'' \<mapsto> [DateTimeOriginal \<mapsto> JString (js ''2021:07:04 10:00:00''),
                  UserComment \<mapsto> JString (js ''ASCII'' @ [0, 0, 0]
                    @ js (''Camera: Canon'' @ CHR 0x0A # ''OriginalFilename: old.jpg''))]]"
  using encode_preserves_first
    [of "[''Exif'' \<mapsto> [DateTimeOriginal \<mapsto> JString (js ''2021:07:04 10:00:00''),
                  UserComment \<mapsto> JString (js ''ASCII'' @ [0, 0, 0]
                    @ js (''Camera: Canon'' @ CHR 0x0A # ''OriginalFilename: old.jpg''))]]"]
  by (simp add: Exif_tag_def)

text \<open>
  C6. The reader is a total function into the record of the two strings: every
  exception of the \<open>try\<close> block ends in the \<open>catch\<close> clause. When a step fails, both
  fields of the result are the empty string: when reading the bytes raises, when the
  base64 step raises, when the parse of the data URL raises (bytes that are no JPEG
  with EXIF data), when the \<open>split\<close> call on the date value raises, and in general
  whenever the \<open>try\<close> block is left by an exception.
\<close>

theorem extract_failure_fallback:
  "(readBinary h file = Inl e \<longrightarrow>
      extractExifDateAndFilename h file = \<lparr>dateTaken = [], originalFileName = []\<rparr>)
   \<and> (readBinary h file = Inr bytes \<and> btoa h (map ucast (take 65536 bytes)) = Inl e \<longrightarrow>
      extractExifDateAndFilename h file = \<lparr>dateTaken = [], originalFileName = []\<rparr>)
   \<and> (readBinary h file = Inr bytes \<and> btoa h (map ucast (take 65536 bytes)) = Inr base64
        \<and> piexif_load h (js ''data:image/jpeg;base64,'' @ base64) = Inl e \<longrightarrow>
      extractExifDateAndFilename h file = \<lparr>dateTaken = [], originalFileName = []\<rparr>)
   \<and> (load_container h file = Inr exifObj
        \<and> dateTaken_of (Exif_tag exifObj DateTimeOriginal) = Inl e \<longrightarrow>
      extractExifDateAndFilename h file = \<lparr>dateTaken = [], originalFileName = []\<rparr>)
   \<and> (snd (try_block h file) = Some e \<longrightarrow>
      extractExifDateAndFilename h file = \<lparr>dateTaken = [], originalFileName = []\<rparr>)"
proof -
  have failed: "extractExifDateAndFilename h file = \<lparr>dateTaken = [], originalFileName = []\<rparr>"
    if "snd (try_block h file) = Some e"
    using that by (simp add: extractExifDateAndFilename_def try_block_failed)
  have "snd (try_block h file) = Some e" if "load_container h file = Inl e"
    using that by (simp add: try_block_raises_iff)
  moreover have "snd (try_block h file) = Some e"
    if "load_container h file = Inr exifObj
        \<and> dateTaken_of (Exif_tag exifObj DateTimeOriginal) = Inl e"
    using that by (auto simp: try_block_raises_iff)
  ultimately show ?thesis
    using failed by (auto simp: load_container_steps)
qed

theorem extract_failure_fallback_witness:
  "readBinary \<lparr>readBinary = (\<lambda>f. Inr [0x6E, 0x6F, 0x74, 0x20, 0x6A, 0x70, 0x67]),
               btoa = (\<lambda>s. Inr (js ''bm90IGpwZw=='')),
               piexif_load = (\<lambda>s. Inl (HostError ''invalid file data''))\<rparr> ''notes.txt''
     = Inr [0x6E, 0x6F, 0x74, 0x20, 0x6A, 0x70, 0x67]
   \<and> piexif_load \<lparr>readBinary = (\<lambda>f. Inr [0x6E, 0x6F, 0x74, 0x20, 0x6A, 0x70, 0x67]),
               btoa = (\<lambda>s. Inr (js ''bm90IGpwZw=='')),
               piexif_load = (\<lambda>s. Inl (HostError ''invalid file data''))\<rparr>
         (js ''data:image/jpeg;base64,'' @ js ''bm90IGpwZw=='')
     = Inl (HostError ''invalid file data'')
   \<and> extractExifDateAndFilename
         \<lparr>readBinary = (\<lambda>f. Inr [0x6E, 0x6F, 0x74, 0x20, 0x6A, 0x70, 0x67]),
          btoa = (\<lambda>s. Inr (js ''bm90IGpwZw=='')),
          piexif_load = (\<lambda>s. Inl (HostError ''invalid file data''))\<rparr> ''notes.txt''
       = \<lparr>dateTaken = [], originalFileName = []\<rparr>"
  using extract_failure_fallback
    [of "\<lparr>readBinary = (\<lambda>f. Inr [0x6E, 0x6F, 0x74, 0x20, 0x6A, 0x70, 0x67]),
          btoa = (\<lambda>s. Inr (js ''bm90IGpwZw=='')),
          piexif_load = (\<lambda>s. Inl (HostError ''invalid file data''))\<rparr>"
        "''notes.txt''" "HostError ''invalid file data''"
        "[0x6E, 0x6F, 0x74, 0x20, 0x6A, 0x70, 0x67]" "js ''bm90IGpwZw==''"]
  by simp

text \<open>
  C7. For a container that the parse returns: when the date-taken tag holds the string
  \<open>2021:07:04 10:00:00\<close>, \<open>dateTaken\<close> is \<open>2021-07-04\<close>; when it holds any string,
  \<open>dateTaken\<close> is what stands before the first space, with every colon replaced by a
  hyphen; when the tag is absent, \<open>dateTaken\<close> is the empty string.
\<close>

theorem extract_date:
  assumes "load_container h file = Inr exifObj"
  shows "(Exif_tag exifObj DateTimeOriginal = Some (JString (js ''2021:07:04 10:00:00'')) \<longrightarrow>
            dateTaken (extractExifDateAndFilename h file) = js ''2021-07-04'')
         \<and> (Exif_tag exifObj DateTimeOriginal = Some (JString s) \<longrightarrow>
            dateTaken (extractExifDateAndFilename h file)
              = map (\<lambda>c. if c = 0x003A then 0x002D else c) (takeWhile (\<lambda>c. c \<noteq> 0x0020) s))
         \<and> (Exif_tag exifObj DateTimeOriginal = None \<longrightarrow>
            dateTaken (extractExifDateAndFilename h file) = [])"
proof -
  have general: "dateTaken (extractExifDateAndFilename h file)
              = map (\<lambda>c. if c = 0x003A then 0x002D else c) (takeWhile (\<lambda>c. c \<noteq> 0x0020) d)"
    if "Exif_tag exifObj DateTimeOriginal = Some (JString d)" for d
    using that
    by (simp add: extractExifDateAndFilename_def try_block_loaded [OF assms] dateTaken_of_string
          replace_colons_def del: dateTaken_of.simps)
  have "map (\<lambda>c. if c = 0x003A then 0x002D else c)
          (takeWhile (\<lambda>c. c \<noteq> 0x0020) (js ''2021:07:04 10:00:00'')) = js ''2021-07-04''"
    by (simp add: js_def)
  with general [of "js ''2021:07:04 10:00:00''"] general [of s] show ?thesis
    by (simp add: extractExifDateAndFilename_def try_block_loaded [OF assms])
qed

theorem extract_date_witness:
  "load_container
     \<lparr>readBinary = (\<lambda>f. Inr [0xFF, 0xD8, 0xFF, 0xE1]),
      btoa = (\<lambda>s. Inr (js ''/9j/4Q=='')),
      piexif_load = (\<lambda>s. Inr [''Exif'' \<mapsto> [DateTimeOriginal \<mapsto> JString (js ''2021:07:04 10:00:00'')]])\<rparr>
     ''IMG_0001.jpg''
     = Inr [''Exif'' \<mapsto> [DateTimeOriginal \<mapsto> JString (js ''2021:07:04 10:00:00'')]]
   \<and> dateTaken (extractExifDateAndFilename
       \<lparr>readBinary = (\<lambda>f. Inr [0xFF, 0xD8, 0xFF, 0xE1]),
        btoa = (\<lambda>s. Inr (js ''/9j/4Q=='')),
        piexif_load = (\<lambda>s. Inr [''Exif'' \<mapsto> [DateTimeOriginal \<mapsto> JString (js ''2021:07:04 10:00:00'')]])\<rparr>
       ''IMG_0001.jpg'') = js ''2021-07-04''"
proof -
  let ?h = "\<lparr>readBinary = (\<lambda>f. Inr [0xFF, 0xD8, 0xFF, 0xE1]),
        btoa = (\<lambda>s. Inr (js ''/9j/4Q=='')),
        piexif_load = (\<lambda>s. Inr [''Exif'' \<mapsto> [DateTimeOriginal \<mapsto> JString (js ''2021:07:04 10:00:00'')]])\<rparr>"
  have loaded: "load_container ?h ''IMG_0001.jpg''
      = Inr [''Exif'' \<mapsto> [DateTimeOriginal \<mapsto> JString (js ''2021:07:04 10:00:00'')]]"
    by (simp add: load_container_def)
  have "Exif_tag [''Exif'' \<mapsto> [DateTimeOriginal \<mapsto> JString (js ''2021:07:04 10:00:00'')]]
          DateTimeOriginal = Some (JString (js ''2021:07:04 10:00:00''))"
    by (simp add: Exif_tag_def)
  with extract_date [OF loaded] loaded show ?thesis
    by blast
qed

text \<open>
  A date value that is not a string: \<open>split\<close> raises, and the annotation of the
  comment is not read either.
\<close>

lemma extract_date_not_a_string:
  "extractExifDateAndFilename
     \<lparr>readBinary = (\<lambda>f. Inr [0xFF, 0xD8, 0xFF, 0xE1]),
      btoa = (\<lambda>s. Inr (js ''/9j/4Q=='')),
      piexif_load = (\<lambda>s. Inr [''Exif'' \<mapsto>
         [DateTimeOriginal \<mapsto> JNumber 2021,
          UserComment \<mapsto> JString (js ''OriginalFilename: IMG_0001.jpg'')]])\<rparr> ''IMG_0001.jpg''
   = \<lparr>dateTaken = [], originalFileName = []\<rparr>"
  by (simp add: extractExifDateAndFilename_def try_block_def load_container_def Exif_tag_def
        tags_differ)

text \<open>
  C8, as amended. The test of the writer asks for the bare label: when a line of the
  comment text, trimmed, starts with \<open>OriginalFilename\<close> (as \<open>OriginalFilenames backup\<close>
  does, with no colon), the call changes nothing. When in addition the text
  \<open>OriginalFilename:\<close> stands nowhere at the start of the comment text or right behind
  a line terminator, the pattern of the reader does not match and the reader takes no
  name from the comment, although the writer has found its label.
\<close>

theorem label_without_colon:
  "(line \<in> set (split_lines [] (commentText_of (Exif_tag metadata UserComment)))
      \<and> startsWith (trim line) (js ''OriginalFilename'')
    \<longrightarrow> encodeOriginalFilename fileName metadata = metadata)
   \<and> (line \<in> set (split_lines [] (commentText_of (Exif_tag metadata UserComment)))
      \<and> startsWith (trim line) (js ''OriginalFilename'')
      \<and> (\<forall>i \<le> length (commentText_of (Exif_tag metadata UserComment)).
            (i = 0 \<or> is_LineTerminator (commentText_of (Exif_tag metadata UserComment) ! (i - 1)))
              \<longrightarrow> \<not> startsWith (drop i (commentText_of (Exif_tag metadata UserComment)))
                      (js ''OriginalFilename:''))
    \<longrightarrow> encodeOriginalFilename fileName metadata = metadata
        \<and> match_OriginalFilename (commentText_of (Exif_tag metadata UserComment)) = None
        \<and> originalFileName_of (Exif_tag metadata UserComment) = [])"
proof -
  have writer: "encodeOriginalFilename fileName metadata = metadata"
    if "line \<in> set (split_lines [] (commentText_of (Exif_tag metadata UserComment)))
        \<and> startsWith (trim line) (js ''OriginalFilename'')"
  proof -
    from that have "hasOriginalFilename (commentText_of (Exif_tag metadata UserComment))"
      unfolding hasOriginalFilename_iff by blast
    then show ?thesis by (simp add: encode_skips)
  qed
  have reader: "match_OriginalFilename (commentText_of (Exif_tag metadata UserComment)) = None
      \<and> originalFileName_of (Exif_tag metadata UserComment) = []"
    if "\<forall>i \<le> length (commentText_of (Exif_tag metadata UserComment)).
            (i = 0 \<or> is_LineTerminator (commentText_of (Exif_tag metadata UserComment) ! (i - 1)))
              \<longrightarrow> \<not> startsWith (drop i (commentText_of (Exif_tag metadata UserComment)))
                      (js ''OriginalFilename:'')"
    using match_OriginalFilename_no_label [OF that] by (simp add: originalFileName_of_def)
  from writer reader show ?thesis by blast
qed

theorem label_without_colon_witness:
  "js ''  OriginalFilenames backup''
     \<in> set (split_lines []
           (commentText_of
              (Exif_tag
                 [''Exif'' \<mapsto> [DateTimeOriginal \<mapsto> JString (js ''2021:07:04 10:00:00''),
                              UserComment \<mapsto> JString (js ''ASCII'' @ [0, 0, 0]
                                @ js (''Camera: Canon'' @ CHR 0x0A # ''  OriginalFilenames backup''))]]
                 UserComment)))
   \<and> startsWith (trim (js ''  OriginalFilenames backup'')) (js ''OriginalFilename'')
   \<and> encodeOriginalFilename (js ''IMG_0001.jpg'')
        [''Exif'' \<mapsto> [DateTimeOriginal \<mapsto> JString (js ''2021:07:04 10:00:00''),
                     UserComment \<mapsto> JString (js ''ASCII'' @ [0, 0, 0]
                       @ js (''Camera: Canon'' @ CHR 0x0A # ''  OriginalFilenames backup''))]]
      = [''Exif'' \<mapsto> [DateTimeOriginal \<mapsto> JString (js ''2021:07:04 10:00:00''),
                     UserComment \<mapsto> JString (js ''ASCII'' @ [0, 0, 0]
                       @ js (''Camera: Canon'' @ CHR 0x0A # ''  OriginalFilenames backup''))]]
   \<and> originalFileName_of
        (Some (JString (js ''ASCII'' @ [0, 0, 0]
           @ js (''Camera: Canon'' @ CHR 0x0A # ''  OriginalFilenames backup'')))) = []"
proof -
  let ?t = "js (''Camera: Canon'' @ CHR 0x0A # ''  OriginalFilenames backup'')"
  let ?m = "[''Exif'' \<mapsto> [DateTimeOriginal \<mapsto> JString (js ''2021:07:04 10:00:00''),
                         UserComment \<mapsto> JString (js ''ASCII'' @ [0, 0, 0] @ ?t)]]"
  have tag: "Exif_tag ?m UserComment = Some (JString (js ''ASCII'' @ [0, 0, 0] @ ?t))"
    by (simp add: Exif_tag_def)
  have "commentText_of (Some (JString (ASCII_prefix @ ?t))) = ?t"
    by (rule commentText_of_prefixed)
  then have stored: "commentText_of (Some (JString (js ''ASCII'' @ [0, 0, 0] @ ?t))) = ?t"
    by (simp add: ASCII_prefix_def del: commentText_of.simps)
  have decoded: "commentText_of (Exif_tag ?m UserComment) = ?t"
    by (simp only: tag stored)
  have line: "js ''  OriginalFilenames backup'' \<in> set (split_lines [] ?t)
      \<and> startsWith (trim (js ''  OriginalFilenames backup'')) (js ''OriginalFilename'')"
    by (simp add: js_def trim_def is_space_def is_WhiteSpace_def is_LineTerminator_def)
  have no_label: "\<forall>i \<le> length ?t.
      (i = 0 \<or> is_LineTerminator (?t ! (i - 1)))
        \<longrightarrow> \<not> startsWith (drop i ?t) (js ''OriginalFilename:'')"
    by (rule no_label_at_line_start_example)
  from label_without_colon
         [of "js ''  OriginalFilenames backup''" ?m "js ''IMG_0001.jpg''"]
       line no_label
  have "encodeOriginalFilename (js ''IMG_0001.jpg'') ?m = ?m
        \<and> originalFileName_of (Exif_tag ?m UserComment) = []"
    unfolding decoded by blast
  then have "encodeOriginalFilename (js ''IMG_0001.jpg'') ?m = ?m
        \<and> originalFileName_of (Some (JString (js ''ASCII'' @ [0, 0, 0] @ ?t))) = []"
    by (simp only: tag)
  moreover from line
  have "js ''  OriginalFilenames backup''
          \<in> set (split_lines [] (commentText_of (Exif_tag ?m UserComment)))
        \<and> startsWith (trim (js ''  OriginalFilenames backup'')) (js ''OriginalFilename'')"
    by (simp only: decoded)
  ultimately show ?thesis
    by blast
qed

text \<open>
  C8 as it is written speaks of every comment that holds such a line. A comment that
  holds the line \<open>OriginalFilenames backup\<close> and behind it the line
  \<open>OriginalFilename: a.jpg\<close> is left as it is by the writer, and the reader takes the
  name \<open>a.jpg\<close> from it.
\<close>

theorem label_without_colon_counterexample:
  "js ''OriginalFilenames backup''
     \<in> set (split_lines []
           (commentText_of
              (Exif_tag
                 [''Exif'' \<mapsto> [DateTimeOriginal \<mapsto> JString (js ''2021:07:04 10:00:00''),
                              UserComment \<mapsto> JString (js ''ASCII'' @ [0, 0, 0]
                                @ js (''OriginalFilenames backup'' @ CHR 0x0A # ''OriginalFilename: a.jpg''))]]
                 UserComment)))
   \<and> truthy
        (Exif_tag
           [''Exif'' \<mapsto> [DateTimeOriginal \<mapsto> JString (js ''2021:07:04 10:00:00''),
                        UserComment \<mapsto> JString (js ''ASCII'' @ [0, 0, 0]
                          @ js (''OriginalFilenames backup'' @ CHR 0x0A # ''OriginalFilename: a.jpg''))]]
           DateTimeOriginal)
   \<and> js ''IMG_0001.jpg'' \<noteq> []
   \<and> encodeOriginalFilename (js ''IMG_0001.jpg'')
        [''Exif'' \<mapsto> [DateTimeOriginal \<mapsto> JString (js ''2021:07:04 10:00:00''),
                     UserComment \<mapsto> JString (js ''ASCII'' @ [0, 0, 0]
                       @ js (''OriginalFilenames backup'' @ CHR 0x0A # ''OriginalFilename: a.jpg''))]]
      = [''Exif'' \<mapsto> [DateTimeOriginal \<mapsto> JString (js ''2021:07:04 10:00:00''),
                     UserComment \<mapsto> JString (js ''ASCII'' @ [0, 0, 0]
                       @ js (''OriginalFilenames backup'' @ CHR 0x0A # ''OriginalFilename: a.jpg''))]]
   \<and> originalFileName_of
        (Exif_tag
           [''Exif'' \<mapsto> [DateTimeOriginal \<mapsto> JString (js ''2021:07:04 10:00:00''),
                        UserComment \<mapsto> JString (js ''ASCII'' @ [0, 0, 0]
                          @ js (''OriginalFilenames backup'' @ CHR 0x0A # ''OriginalFilename: a.jpg''))]]
           UserComment)
      = js ''a.jpg''
   \<and> js ''a.jpg'' \<noteq> []"
  by (simp add: encodeOriginalFilename_def Exif_tag_def DateTimeOriginal_def UserComment_def
        js_def hasOriginalFilename_def trim_def ASCII_prefix_def
        is_space_def is_WhiteSpace_def is_LineTerminator_def
        originalFileName_of_def match_OriginalFilename_def match_at_def dot_plus_eol_def)

text \<open>
  C9. The writer changes at most the comment tag of the section \<open>Exif\<close>: every other
  section is as before, every other tag of the Exif section is as before, and the
  section is there after the call exactly when it was there before.
\<close>

theorem encode_frame:
  "(section \<noteq> ''Exif'' \<longrightarrow> encodeOriginalFilename fileName metadata section = metadata section)
   \<and> (tag \<noteq> UserComment \<longrightarrow>
        Exif_tag (encodeOriginalFilename fileName metadata) tag = Exif_tag metadata tag)
   \<and> (encodeOriginalFilename fileName metadata ''Exif'' = None \<longleftrightarrow> metadata ''Exif'' = None)"
  by (auto simp: encodeOriginalFilename_def Exif_tag_def Let_def split: option.splits)

theorem encode_frame_witness:
  "''GPS'' \<noteq> ''Exif'' \<and> DateTimeOriginal \<noteq> UserComment
   \<and> encodeOriginalFilename (js ''IMG_0001.jpg'')
        [''GPS'' \<mapsto> [1 \<mapsto> JString (js ''N'')],
         ''Exif'' \<mapsto> [DateTimeOriginal \<mapsto> JString (js ''2021:07:04 10:00:00'')]] ''GPS''
       = Some [1 \<mapsto> JString (js ''N'')]
   \<and> Exif_tag
        (encodeOriginalFilename (js ''IMG_0001.jpg'')
          [''GPS'' \<mapsto> [1 \<mapsto> JString (js ''N'')],
           ''Exif'' \<mapsto> [DateTimeOriginal \<mapsto> JString (js ''2021:07:04 10:00:00'')]])
        DateTimeOriginal
       = Some (JString (js ''2021:07:04 10:00:00''))"
  using encode_frame
    [of "''GPS''" "js ''IMG_0001.jpg''"
        "[''GPS'' \<mapsto> [1 \<mapsto> JString (js ''N'')],
          ''Exif'' \<mapsto> [DateTimeOriginal \<mapsto> JString (js ''2021:07:04 10:00:00'')]]"
        DateTimeOriginal]
  by (simp add: tags_differ Exif_tag_def)

text \<open>
  C10, as amended. When the value under the comment tag is not a string, its text is
  empty for both functions: the reader returns the empty \<open>originalFileName\<close>, and the
  writer, given a file name that is not empty and a date-taken tag with a truthy
  value, replaces the value by the prefix followed by \<open>OriginalFilename: \<close> and the
  file name.
\<close>

theorem non_string_comment:
  assumes "Exif_tag metadata UserComment = Some v" and "\<not> is_string v"
  shows "originalFileName_of (Exif_tag metadata UserComment) = []
         \<and> (load_container h file = Inr metadata \<longrightarrow>
              originalFileName (extractExifDateAndFilename h file) = [])
         \<and> (truthy (Exif_tag metadata DateTimeOriginal) \<and> fileName \<noteq> [] \<longrightarrow>
              Exif_tag (encodeOriginalFilename fileName metadata) UserComment
                = Some (JString (ASCII_prefix @ js ''OriginalFilename: '' @ fileName)))"
proof (intro conjI impI)
  from assms have empty: "commentText_of (Exif_tag metadata UserComment) = []"
    by (simp add: commentText_of_non_string)
  then show no_name: "originalFileName_of (Exif_tag metadata UserComment) = []"
    by (rule originalFileName_of_empty_text)
  show "originalFileName (extractExifDateAndFilename h file) = []"
    if "load_container h file = Inr metadata"
    using no_name
    by (simp add: extractExifDateAndFilename_def try_block_loaded [OF that] split: sum.splits)
  show "Exif_tag (encodeOriginalFilename fileName metadata) UserComment
          = Some (JString (ASCII_prefix @ js ''OriginalFilename: '' @ fileName))"
    if guard: "truthy (Exif_tag metadata DateTimeOriginal) \<and> fileName \<noteq> []"
  proof -
    have fresh: "\<not> hasOriginalFilename (commentText_of (Exif_tag metadata UserComment))"
      unfolding empty by (simp add: hasOriginalFilename_def trim_def js_def)
    from guard have "truthy (Exif_tag metadata DateTimeOriginal)" and "fileName \<noteq> []"
      by simp_all
    from encode_writes [OF this fresh] empty show ?thesis
      by (auto simp: Exif_tag_def)
  qed
qed

theorem non_string_comment_witness:
  "Exif_tag [''Exif'' \<mapsto> [DateTimeOriginal \<mapsto> JString (js ''2021:07:04 10:00:00''),
                         UserComment \<mapsto> JArray [JNumber 1, JNumber 2]]] UserComment
      = Some (JArray [JNumber 1, JNumber 2])
   \<and> \<not> is_string (JArray [JNumber 1, JNumber 2])
   \<and> originalFileName (extractExifDateAndFilename
        \<lparr>readBinary = (\<lambda>f. Inr [0xFF, 0xD8, 0xFF, 0xE1]),
         btoa = (\<lambda>s. Inr (js ''/9j/4Q=='')),
         piexif_load = (\<lambda>s. Inr [''Exif'' \<mapsto> [DateTimeOriginal \<mapsto> JString (js ''2021:07:04 10:00:00''),
                         UserComment \<mapsto> JArray [JNumber 1, JNumber 2]]])\<rparr> ''IMG_0001.jpg'') = []
   \<and> Exif_tag
        (encodeOriginalFilename (js ''IMG_0001.jpg'')
           [''Exif'' \<mapsto> [DateTimeOriginal \<mapsto> JString (js ''2021:07:04 10:00:00''),
                         UserComment \<mapsto> JArray [JNumber 1, JNumber 2]]])
        UserComment
       = Some (JString (js ''ASCII'' @ [0, 0, 0] @ js ''OriginalFilename: IMG_0001.jpg''))"
proof -
  let ?m = "[''Exif'' \<mapsto> [DateTimeOriginal \<mapsto> JString (js ''2021:07:04 10:00:00''),
                         UserComment \<mapsto> JArray [JNumber 1, JNumber 2]]]"
  let ?h = "\<lparr>readBinary = (\<lambda>f. Inr [0xFF, 0xD8, 0xFF, 0xE1]),
         btoa = (\<lambda>s. Inr (js ''/9j/4Q=='')),
         piexif_load = (\<lambda>s. Inr ?m)\<rparr>"
  have comment: "Exif_tag ?m UserComment = Some (JArray [JNumber 1, JNumber 2])"
    by (simp add: Exif_tag_def)
  have array: "\<not> is_string (JArray [JNumber 1, JNumber 2])"
    by simp
  have loaded: "load_container ?h ''IMG_0001.jpg'' = Inr ?m"
    by (simp add: load_container_def)
  have guard: "truthy (Exif_tag ?m DateTimeOriginal) \<and> js ''IMG_0001.jpg'' \<noteq> []"
    by (simp add: Exif_tag_def tags_differ js_def)
  have literal: "ASCII_prefix @ js ''OriginalFilename: '' @ js ''IMG_0001.jpg''
      = js ''ASCII'' @ [0, 0, 0] @ js ''OriginalFilename: IMG_0001.jpg''"
    by (simp add: ASCII_prefix_def js_def)
  from non_string_comment [OF comment array, of ?h "''IMG_0001.jpg''" "js ''IMG_0001.jpg''"]
    comment array loaded guard
  show ?thesis
    unfolding literal by blast
qed

text \<open>
  C10 as it is written asks only for the date-taken tag to be present: with the empty
  string under the tag the guard of line 58 returns and the number under the comment
  tag stays.
\<close>

theorem non_string_comment_counterexample:
  "Exif_tag [''Exif'' \<mapsto> [DateTimeOriginal \<mapsto> JString (js ''''), UserComment \<mapsto> JNumber 7]]
      DateTimeOriginal = Some (JString (js ''''))
   \<and> Exif_tag [''Exif'' \<mapsto> [DateTimeOriginal \<mapsto> JString (js ''''), UserComment \<mapsto> JNumber 7]]
      UserComment = Some (JNumber 7)
   \<and> \<not> is_string (JNumber 7)
   \<and> js ''IMG_0001.jpg'' \<noteq> []
   \<and> Exif_tag
        (encodeOriginalFilename (js ''IMG_0001.jpg'')
           [''Exif'' \<mapsto> [DateTimeOriginal \<mapsto> JString (js ''''), UserComment \<mapsto> JNumber 7]])
        UserComment
       \<noteq> Some (JString (js ''ASCII'' @ [0, 0, 0] @ js ''OriginalFilename: IMG_0001.jpg''))"
  by (simp add: encodeOriginalFilename_def Exif_tag_def tags_differ js_def)

end
